theory Spec2Isabelle
  imports Complex_Main "HOL-Library.Sublist" "HOL-Library.Multiset"
begin

section \<open>Numbers and strings of the host language\<close>

text \<open>
  The program is TypeScript; every \<open>number\<close> is an IEEE binary64 value. The model keeps
  the non-finite values apart and takes the finite ones as rationals: an operation on finite
  operands is exact (rounding to 53 bits is not modelled, and \<open>-0\<close> is \<open>Fin 0\<close>); the cases
  in which IEEE arithmetic leaves the finite numbers (\<open>x / 0\<close>, \<open>0 / 0\<close>, \<open>0 * Infinity\<close>,
  \<open>Infinity - Infinity\<close>) are written out.
\<close>

datatype jsnum = Fin rat | PosInf | NegInf | NaN

fun isFinite :: "jsnum \<Rightarrow> bool" where
  "isFinite (Fin q) = True"
| "isFinite PosInf = False"
| "isFinite NegInf = False"
| "isFinite NaN = False"


fun jadd :: "jsnum \<Rightarrow> jsnum \<Rightarrow> jsnum" where
  "jadd (Fin a) (Fin b) = Fin (a + b)"
| "jadd NaN y = NaN"
| "jadd x NaN = NaN"
| "jadd PosInf NegInf = NaN"
| "jadd NegInf PosInf = NaN"
| "jadd PosInf y = PosInf"
| "jadd NegInf y = NegInf"
| "jadd x PosInf = PosInf"
| "jadd x NegInf = NegInf"


text \<open>The sign of a product or quotient with an infinite operand.\<close>

definition signed_inf :: "bool \<Rightarrow> jsnum" where
  "signed_inf positive = (if positive then PosInf else NegInf)"

fun jmul :: "jsnum \<Rightarrow> jsnum \<Rightarrow> jsnum" where
  "jmul (Fin a) (Fin b) = Fin (a * b)"
| "jmul NaN y = NaN"
| "jmul x NaN = NaN"
| "jmul (Fin a) PosInf = (if a = 0 then NaN else signed_inf (0 < a))"
| "jmul (Fin a) NegInf = (if a = 0 then NaN else signed_inf (a < 0))"
| "jmul PosInf (Fin b) = (if b = 0 then NaN else signed_inf (0 < b))"
| "jmul NegInf (Fin b) = (if b = 0 then NaN else signed_inf (b < 0))"
| "jmul PosInf PosInf = PosInf"
| "jmul PosInf NegInf = NegInf"
| "jmul NegInf PosInf = NegInf"
| "jmul NegInf NegInf = PosInf"

fun jdiv :: "jsnum \<Rightarrow> jsnum \<Rightarrow> jsnum" where
  "jdiv (Fin a) (Fin b) =
     (if b = 0 then (if a = 0 then NaN else signed_inf (0 < a)) else Fin (a / b))"
| "jdiv NaN y = NaN"
| "jdiv x NaN = NaN"
| "jdiv (Fin a) PosInf = Fin 0"
| "jdiv (Fin a) NegInf = Fin 0"
| "jdiv PosInf (Fin b) = signed_inf (0 \<le> b)"
| "jdiv NegInf (Fin b) = signed_inf (b < 0)"
| "jdiv PosInf PosInf = NaN"
| "jdiv PosInf NegInf = NaN"
| "jdiv NegInf PosInf = NaN"
| "jdiv NegInf NegInf = NaN"

text \<open>\<open>x < y\<close>, \<open>x > y\<close> and \<open>x <= y\<close>: false as soon as one side is \<open>NaN\<close>.\<close>

fun jlt :: "jsnum \<Rightarrow> jsnum \<Rightarrow> bool" where
  "jlt (Fin a) (Fin b) = (a < b)"
| "jlt NaN y = False"
| "jlt x NaN = False"
| "jlt NegInf NegInf = False"
| "jlt NegInf y = True"
| "jlt x NegInf = False"
| "jlt PosInf y = False"
| "jlt x PosInf = True"


definition jle :: "jsnum \<Rightarrow> jsnum \<Rightarrow> bool" where
  "jle x y = (x \<noteq> NaN \<and> y \<noteq> NaN \<and> \<not> jlt y x)"



text \<open>\<open>Math.ceil(n / 4)\<close> on a string length \<open>n\<close>.\<close>

definition ceil_div4 :: "nat \<Rightarrow> nat" where
  "ceil_div4 n = nat \<lceil>(of_nat n :: rat) / 4\<rceil>"


abbreviation million :: jsnum where
  "million \<equiv> Fin 1000000"

text \<open>
  A string is the list of its code units, so \<open>length\<close> is the \<open>.length\<close> of the source; the
  model has the code units below 256. \<open>toLowerCase\<close> moves \<open>A\<close>-\<open>Z\<close> (65 to 90) and the
  capital letters of Latin-1 (192 to 222 without 215) up by 32, which sets the bit of weight
  32, and leaves every other unit.
\<close>

definition toLowerChar :: "char \<Rightarrow> char" where
  "toLowerChar c =
     (let n = (of_char c :: nat)
      in if (65 \<le> n \<and> n \<le> 90) \<or> (192 \<le> n \<and> n \<le> 222 \<and> n \<noteq> 215)
         then (case c of Char b0 b1 b2 b3 b4 b5 b6 b7 \<Rightarrow> Char b0 b1 b2 b3 b4 True b6 b7)
         else c)"

definition toLowerCase :: "string \<Rightarrow> string" where
  "toLowerCase s = map toLowerChar s"

text \<open>\<open>s.includes(sub)\<close>: \<open>sub\<close> occurs in \<open>s\<close> as a contiguous block.\<close>

fun includes_str :: "string \<Rightarrow> string \<Rightarrow> bool" where
  "includes_str [] sub = (sub = [])"
| "includes_str (c # cs) sub = (prefix sub (c # cs) \<or> includes_str cs sub)"

section \<open>Pricing catalog (\<open>src/data/pricing.ts\<close>)\<close>

record ModelPricing =
  name :: string
  provider :: string
  inputPricePerMillion :: jsnum
  outputPricePerMillion :: jsnum
  contextWindow :: jsnum
  encoding :: "string option"

text \<open>A \<open>Record<string, ModelPricing>\<close> is read by key only, so it is a map.\<close>

type_synonym pricing_table = "string \<rightharpoonup> ModelPricing"

definition mk_pricing ::
  "string \<Rightarrow> string \<Rightarrow> rat \<Rightarrow> rat \<Rightarrow> rat \<Rightarrow> string option \<Rightarrow> ModelPricing" where
  "mk_pricing n p i out cw e =
     \<lparr>name = n, provider = p, inputPricePerMillion = Fin i, outputPricePerMillion = Fin out,
      contextWindow = Fin cw, encoding = e\<rparr>"

definition MODEL_PRICING_entries :: "(string \<times> ModelPricing) list" where
  "MODEL_PRICING_entries =
    [(''gpt-4o'', mk_pricing ''GPT-4o'' ''OpenAI'' 5 15 128000 (Some ''cl100k_base'')),
     (''gpt-4o-mini'', mk_pricing ''GPT-4o Mini'' ''OpenAI'' (15 / 100) (60 / 100) 128000 (Some ''cl100k_base'')),
     (''gpt-4-turbo'', mk_pricing ''GPT-4 Turbo'' ''OpenAI'' 10 30 128000 (Some ''cl100k_base'')),
     (''gpt-4'', mk_pricing ''GPT-4'' ''OpenAI'' 30 60 8192 (Some ''cl100k_base'')),
     (''gpt-3.5-turbo'', mk_pricing ''GPT-3.5 Turbo'' ''OpenAI'' (50 / 100) (150 / 100) 16385 (Some ''cl100k_base'')),
     (''claude-opus-4'', mk_pricing ''Claude Opus 4'' ''Anthropic'' 15 75 200000 None),
     (''claude-sonnet-4'', mk_pricing ''Claude Sonnet 4'' ''Anthropic'' 3 15 200000 None),
     (''claude-sonnet-3-5'', mk_pricing ''Claude 3.5 Sonnet'' ''Anthropic'' 3 15 200000 None),
     (''claude-haiku-3-5'', mk_pricing ''Claude 3.5 Haiku'' ''Anthropic'' 1 5 200000 None),
     (''claude-3-opus'', mk_pricing ''Claude 3 Opus'' ''Anthropic'' 15 75 200000 None),
     (''claude-3-sonnet'', mk_pricing ''Claude 3 Sonnet'' ''Anthropic'' 3 15 200000 None),
     (''claude-3-haiku'', mk_pricing ''Claude 3 Haiku'' ''Anthropic'' (25 / 100) (125 / 100) 200000 None),
     (''gemini-2.0-flash'', mk_pricing ''Gemini 2.0 Flash'' ''Google'' 0 0 1000000 None),
     (''gemini-1.5-pro'', mk_pricing ''Gemini 1.5 Pro'' ''Google'' (125 / 100) 5 2000000 None),
     (''gemini-1.5-flash'', mk_pricing ''Gemini 1.5 Flash'' ''Google'' (75 / 1000) (30 / 100) 1000000 None),
     (''llama-3.1-405b'', mk_pricing ''Llama 3.1 405B'' ''Meta'' 5 15 128000 None),
     (''llama-3.1-70b'', mk_pricing ''Llama 3.1 70B'' ''Meta'' (90 / 100) (90 / 100) 128000 None),
     (''llama-3.1-8b'', mk_pricing ''Llama 3.1 8B'' ''Meta'' (20 / 100) (20 / 100) 128000 None)]"

definition MODEL_PRICING :: pricing_table where
  "MODEL_PRICING = map_of MODEL_PRICING_entries"

definition MODEL_ALIASES :: "string \<rightharpoonup> string" where
  "MODEL_ALIASES = map_of
    [(''gpt4o'', ''gpt-4o''),
     (''gpt4'', ''gpt-4''),
     (''gpt-4-0125-preview'', ''gpt-4-turbo''),
     (''gpt-4-1106-preview'', ''gpt-4-turbo''),
     (''gpt35'', ''gpt-3.5-turbo''),
     (''gpt-3.5'', ''gpt-3.5-turbo''),
     (''opus-4'', ''claude-opus-4''),
     (''sonnet-4'', ''claude-sonnet-4''),
     (''haiku-3.5'', ''claude-haiku-3-5''),
     (''opus'', ''claude-3-opus''),
     (''sonnet'', ''claude-3-sonnet''),
     (''haiku'', ''claude-3-haiku''),
     (''gemini-pro'', ''gemini-1.5-pro''),
     (''gemini-flash'', ''gemini-1.5-flash''),
     (''gemini'', ''gemini-1.5-pro'')]"

text \<open>
  \<open>getModelPricing\<close> reads the module variable \<open>runtimePricing\<close>; the model takes the table
  as its first argument. A record in the table is an object, hence true in a condition.
\<close>

definition getModelPricing :: "pricing_table \<Rightarrow> string \<Rightarrow> ModelPricing option" where
  "getModelPricing runtimePricing model =
     (let normalizedModel = toLowerCase model
      in case runtimePricing normalizedModel of
           Some p \<Rightarrow> Some p
         | None \<Rightarrow>
             (case MODEL_ALIASES normalizedModel of
                None \<Rightarrow> None
              | Some aliasedModel \<Rightarrow>
                  (if aliasedModel \<noteq> [] then runtimePricing aliasedModel else None)))"

section \<open>Token counting (\<open>src/core/tokenizer.ts\<close>)\<close>

text \<open>
  An exception is a value. \<open>UnknownModel m\<close> is the \<open>Error\<close> with the message
  \<open>Unknown model: m\<close>; \<open>TokenizerError\<close> is whatever the tokenizer library raises.
\<close>

datatype error = UnknownModel string | TokenizerError

text \<open>
  The field \<open>model\<close> of a \<open>TokenCount\<close> is \<open>count_model\<close> here, and that of an entry of
  \<open>alternatives\<close> is \<open>alt_model\<close>: the name \<open>model\<close> is kept for \<open>CostEstimate\<close>.
\<close>

record TokenCount =
  tokens :: nat
  characters :: nat
  count_model :: string

text \<open>
  The tokenizer library is not part of the repository. \<open>encoding_for_model\<close> of the library
  is the parameter \<open>efm\<close>: \<open>efm n = None\<close> when the call raises for the name \<open>n\<close>, and
  \<open>efm n = Some enc\<close> gives the encoder, of which the program reads \<open>enc.encode(text).length\<close>
  only, the number \<open>enc text\<close>.
\<close>

type_synonym tokenizer = "string \<Rightarrow> (string \<Rightarrow> nat) option"

definition encoded :: "(string \<Rightarrow> nat) \<Rightarrow> string \<Rightarrow> string \<Rightarrow> TokenCount" where
  "encoded enc text model = \<lparr>tokens = enc text, characters = length text, count_model = model\<rparr>"

text \<open>
  The count made with the encoder that the library has under one name; both functions that
  call the library return a count of this form.
\<close>

definition libraryCount :: "tokenizer \<Rightarrow> string \<Rightarrow> string \<Rightarrow> string \<Rightarrow> error + TokenCount" where
  "libraryCount efm encoderName text model =
     (case efm encoderName of
        Some enc \<Rightarrow> Inr (encoded enc text model)
      | None \<Rightarrow> Inl TokenizerError)"

definition countOpenAITokens ::
  "tokenizer \<Rightarrow> pricing_table \<Rightarrow> string \<Rightarrow> string \<Rightarrow> error + TokenCount" where
  "countOpenAITokens efm runtimePricing text model =
     (let pricing = getModelPricing runtimePricing model;
          encoding = (case pricing of
                        None \<Rightarrow> ''cl100k_base''
                      | Some p \<Rightarrow> (case encoding p of
                                     None \<Rightarrow> ''cl100k_base''
                                   | Some e \<Rightarrow> if e = [] then ''cl100k_base'' else e))
      in case efm model of
           Some enc \<Rightarrow> Inr (encoded enc text model)
         | None \<Rightarrow>
             (case efm encoding of
                Some enc \<Rightarrow> Inr (encoded enc text model)
              | None \<Rightarrow> Inl TokenizerError))"

definition countClaudeTokens :: "string \<Rightarrow> string \<Rightarrow> TokenCount" where
  "countClaudeTokens text model =
     (let estimatedTokens = ceil_div4 (length text)
      in \<lparr>tokens = estimatedTokens, characters = length text, count_model = model\<rparr>)"

definition countGeminiTokens :: "string \<Rightarrow> string \<Rightarrow> TokenCount" where
  "countGeminiTokens text model =
     (let estimatedTokens = ceil_div4 (length text)
      in \<lparr>tokens = estimatedTokens, characters = length text, count_model = model\<rparr>)"

definition countLlamaTokens :: "tokenizer \<Rightarrow> string \<Rightarrow> string \<Rightarrow> error + TokenCount" where
  "countLlamaTokens efm text model =
     (case efm ''cl100k_base'' of
        Some enc \<Rightarrow> Inr (encoded enc text model)
      | None \<Rightarrow> Inl TokenizerError)"

definition countTokens ::
  "tokenizer \<Rightarrow> pricing_table \<Rightarrow> string \<Rightarrow> string \<Rightarrow> error + TokenCount" where
  "countTokens efm runtimePricing text model =
     (let normalizedModel = toLowerCase model
      in if includes_str normalizedModel ''gpt'' then countOpenAITokens efm runtimePricing text model
         else if includes_str normalizedModel ''claude'' then Inr (countClaudeTokens text model)
         else if includes_str normalizedModel ''gemini'' then Inr (countGeminiTokens text model)
         else if includes_str normalizedModel ''llama'' then countLlamaTokens efm text model
         else countOpenAITokens efm runtimePricing text model)"

section \<open>Cost calculation (\<open>src/core/cost-calculator.ts\<close>)\<close>

text \<open>
  From here on a parameter that the source calls \<open>model\<close> is \<open>mdl\<close>, the name being a field
  of the record. The token count of the adapter is a natural number and enters the estimate
  as the number \<open>Fin (of_nat (tokens tokenCount))\<close>.
\<close>

record CostEstimate =
  model :: string
  inputTokens :: jsnum
  outputTokens :: jsnum
  inputCost :: jsnum
  outputCost :: jsnum
  totalCost :: jsnum
  costPerToken :: jsnum
  pricing :: ModelPricing

definition calculateCost ::
  "tokenizer \<Rightarrow> pricing_table \<Rightarrow> string \<Rightarrow> string \<Rightarrow> jsnum \<Rightarrow> error + CostEstimate" where
  "calculateCost efm runtimePricing inputText mdl estimatedOutputTokens =
     (case getModelPricing runtimePricing mdl of
        None \<Rightarrow> Inl (UnknownModel mdl)
      | Some pr \<Rightarrow>
          (case countTokens efm runtimePricing inputText mdl of
             Inl e \<Rightarrow> Inl e
           | Inr tokenCount \<Rightarrow>
               (let inTokens = Fin (of_nat (tokens tokenCount));
                    outTokens = estimatedOutputTokens;
                    inCost = jmul (jdiv inTokens million) (inputPricePerMillion pr);
                    outCost = jmul (jdiv outTokens million) (outputPricePerMillion pr);
                    total = jadd inCost outCost;
                    perToken = jdiv total (jadd inTokens outTokens)
                in Inr \<lparr>model = mdl, inputTokens = inTokens, outputTokens = outTokens,
                         inputCost = inCost, outputCost = outCost, totalCost = total,
                         costPerToken = perToken, pricing = pr\<rparr>)))"






















section \<open>Community pricing (\<open>src/data/pricing-fetcher.ts\<close>)\<close>








text \<open>
  What \<open>fetch\<close> and \<open>response.json()\<close> do is an input: one of three failures, or the
  entries of the parsed document.
\<close>

datatype fetch_error = NetworkFailure | BadStatus | MalformedBody


text \<open>
  The module variables of \<open>pricing-fetcher.ts\<close> and \<open>pricing.ts\<close>, and the lines written by
  \<open>console.warn\<close>. Times are milliseconds.
\<close>

record module_state =
  runtimePricing :: pricing_table
  pricingInitialized :: bool
  cachedPricing :: "pricing_table option"
  cacheTimestamp :: int
  console :: "string list"







section \<open>Notions used in the statements\<close>



text \<open>
  The estimate of scenario D: 2000 input tokens and 500 output tokens on \<open>gpt-4o\<close>, with the
  record of the default table.
\<close>

definition scenario_D :: CostEstimate where
  "scenario_D =
     \<lparr>model = ''gpt-4o'', inputTokens = Fin 2000, outputTokens = Fin 500,
      inputCost = Fin 0.01, outputCost = Fin 0.0075, totalCost = Fin 0.0175,
      costPerToken = Fin 0.000007,
      pricing = mk_pricing ''GPT-4o'' ''OpenAI'' 5 15 128000 (Some ''cl100k_base'')\<rparr>"


text \<open>
  Rounding to binary64, for a positive \<open>q\<close> in the normal range: \<open>k\<close> is the scale at which
  \<open>q\<close> has 53 bits before the point, and \<open>m\<close> is the integer nearest to \<open>q * 2^k\<close>, the even
  one on a tie. Then \<open>m / 2^k\<close> is the binary64 value of \<open>q\<close>.
\<close>

definition nearest64 :: "rat \<Rightarrow> nat \<Rightarrow> nat \<Rightarrow> bool" where
  "nearest64 q m k \<longleftrightarrow>
     2 ^ 52 \<le> q * 2 ^ k \<and> q * 2 ^ k < 2 ^ 53
     \<and> \<bar>q * 2 ^ k - of_nat m\<bar> \<le> 1 / 2
     \<and> (\<bar>q * 2 ^ k - of_nat m\<bar> = 1 / 2 \<longrightarrow> even m)"

section \<open>Facts about the numbers and the catalog\<close>

lemma ceil_div4_eq: "ceil_div4 n = (n + 3) div 4"
  unfolding ceil_div4_def by linarith

lemma ceil_div4_ceiling: "int (ceil_div4 n) = \<lceil>(of_nat n :: rat) / 4\<rceil>"
  unfolding ceil_div4_def by (simp add: ceiling_le_zero[symmetric] del: ceiling_le_zero)

lemma jdiv_zero_not_finite: "\<not> isFinite (jdiv x (Fin 0))"
  by (cases x) (simp_all add: signed_inf_def)

lemma jdiv_zero_zero: "jdiv (Fin 0) (Fin 0) = NaN"
  by simp

lemmas string_eval = toLowerCase_def toLowerChar_def

lemmas catalog_eval = getModelPricing_def MODEL_PRICING_def MODEL_PRICING_entries_def
  MODEL_ALIASES_def mk_pricing_def string_eval

lemmas count_eval = countTokens_def countOpenAITokens_def countClaudeTokens_def
  countGeminiTokens_def countLlamaTokens_def encoded_def ceil_div4_eq

section \<open>Facts about the token counters\<close>

lemma countOpenAITokens_library:
  "\<exists>nm. countOpenAITokens efm rp text mdl = libraryCount efm nm text mdl"
proof (cases "efm mdl")
  case None
  then show ?thesis
    unfolding countOpenAITokens_def libraryCount_def Let_def by (auto split: option.splits)
next
  case (Some enc)
  then have "countOpenAITokens efm rp text mdl = libraryCount efm mdl text mdl"
    by (simp add: countOpenAITokens_def libraryCount_def Let_def)
  then show ?thesis ..
qed

lemma countLlamaTokens_library:
  "countLlamaTokens efm text mdl = libraryCount efm ''cl100k_base'' text mdl"
  by (simp add: countLlamaTokens_def libraryCount_def)

lemma libraryCount_fields:
  "libraryCount efm nm text mdl = Inr tc \<Longrightarrow> characters tc = length text \<and> count_model tc = mdl"
  by (auto simp: libraryCount_def encoded_def split: option.splits)

lemma countTokens_library_or_heuristic:
  "(\<exists>nm. countTokens efm rp text mdl = libraryCount efm nm text mdl) \<or>
   countTokens efm rp text mdl =
     Inr \<lparr>tokens = ceil_div4 (length text), characters = length text, count_model = mdl\<rparr>"
  using countOpenAITokens_library[of efm rp "text" mdl] countLlamaTokens_library[of efm "text" mdl]
  by (auto simp: countTokens_def Let_def countClaudeTokens_def countGeminiTokens_def)


lemma countTokens_fields:
  "countTokens efm rp text mdl = Inr tc \<Longrightarrow> characters tc = length text \<and> count_model tc = mdl"
  using countTokens_library_or_heuristic[of efm rp "text" mdl]
    libraryCount_fields[of efm _ "text" mdl tc]
  by auto

lemma countTokens_returns:
  assumes "efm mdl \<noteq> None" "efm ''cl100k_base'' \<noteq> None"
  shows "\<exists>tc. countTokens efm rp text mdl = Inr tc"
  using assms
  by (auto simp: countTokens_def Let_def countOpenAITokens_def countLlamaTokens_def)

lemma countTokens_heuristic:
  assumes "\<not> includes_str (toLowerCase mdl) ''gpt''"
    and "includes_str (toLowerCase mdl) ''claude'' \<or> includes_str (toLowerCase mdl) ''gemini''"
  shows "countTokens efm rp text mdl =
     Inr \<lparr>tokens = ceil_div4 (length text), characters = length text, count_model = mdl\<rparr>"
  using assms by (auto simp: countTokens_def Let_def countClaudeTokens_def countGeminiTokens_def)

section \<open>Facts about the cost estimate\<close>

lemma calculateCost_Inr:
  assumes "getModelPricing rp mdl = Some pr" and "countTokens efm rp text mdl = Inr tc"
  shows "calculateCost efm rp text mdl n =
    Inr \<lparr>model = mdl, inputTokens = Fin (of_nat (tokens tc)), outputTokens = n,
         inputCost = jmul (jdiv (Fin (of_nat (tokens tc))) million) (inputPricePerMillion pr),
         outputCost = jmul (jdiv n million) (outputPricePerMillion pr),
         totalCost = jadd (jmul (jdiv (Fin (of_nat (tokens tc))) million) (inputPricePerMillion pr))
                          (jmul (jdiv n million) (outputPricePerMillion pr)),
         costPerToken =
           jdiv (jadd (jmul (jdiv (Fin (of_nat (tokens tc))) million) (inputPricePerMillion pr))
                      (jmul (jdiv n million) (outputPricePerMillion pr)))
                (jadd (Fin (of_nat (tokens tc))) n),
         pricing = pr\<rparr>"
  using assms by (simp add: calculateCost_def Let_def)



lemma calculateCost_finite:
  assumes "getModelPricing rp mdl = Some pr" and "countTokens efm rp text mdl = Inr tc"
    and "inputPricePerMillion pr = Fin pin" and "outputPricePerMillion pr = Fin pout"
    and "0 \<le> k"
  shows "calculateCost efm rp text mdl (Fin k) =
    Inr \<lparr>model = mdl, inputTokens = Fin (of_nat (tokens tc)), outputTokens = Fin k,
         inputCost = Fin (of_nat (tokens tc) / 1000000 * pin),
         outputCost = Fin (k / 1000000 * pout),
         totalCost = Fin (of_nat (tokens tc) / 1000000 * pin + k / 1000000 * pout),
         costPerToken =
           (if tokens tc = 0 \<and> k = 0 then NaN
            else Fin ((of_nat (tokens tc) / 1000000 * pin + k / 1000000 * pout)
                       / (of_nat (tokens tc) + k))),
         pricing = pr\<rparr>"
proof -
  have z: "(of_nat (tokens tc) + k = 0) \<longleftrightarrow> (tokens tc = 0 \<and> k = 0)"
    using assms(5) by (metis add_nonneg_eq_0_iff of_nat_0_le_iff of_nat_eq_0_iff)
  show ?thesis
    using calculateCost_Inr[OF assms(1,2), of "Fin k"] assms(3,4) z by auto
qed






section \<open>Facts about the sort\<close>













section \<open>Facts about the comparison\<close>
















section \<open>Facts about the conversion\<close>










section \<open>Facts about the initialization\<close>





section \<open>Facts about the suggestions\<close>










lemma scenario_D_is_estimate:
  "calculateCost (\<lambda>n. Some (\<lambda>t. 2000)) MODEL_PRICING ''any text'' ''gpt-4o'' (Fin 500) = Inr scenario_D"
  by (simp add: calculateCost_def catalog_eval count_eval scenario_D_def Let_def)

section \<open>Scenario A with binary64 rounding\<close>

text \<open>
  The model of the numbers does not round. For the text of 4000 characters, the prices 5.00
  and 15.00 and 500 output tokens, the values of the source with its rounding are these:
  \<open>1000 / 1_000_000\<close> rounds to \<open>4611686018427388 / 2^62\<close>, its product with 5 is exact and
  is the binary64 value of \<open>0.005\<close>; \<open>500 / 1_000_000\<close> rounds to \<open>4611686018427388 / 2^63\<close>,
  its product with 15 rounds (on a tie) to the binary64 value of \<open>0.0075\<close>; and the sum of
  the two rounds (on a tie) to the binary64 value of \<open>0.0125\<close>. So the three numbers of the
  scenario are what the program computes, bit for bit.
\<close>

lemma binary64_costs_of_4000_characters:
  "nearest64 (1000 / 1000000) 4611686018427388 62
   \<and> nearest64 (4611686018427388 / 2 ^ 62 * 5) 5764607523034235 60
   \<and> nearest64 0.005 5764607523034235 60
   \<and> nearest64 (500 / 1000000) 4611686018427388 63
   \<and> nearest64 (4611686018427388 / 2 ^ 63 * 15) 8646911284551352 60
   \<and> nearest64 0.0075 8646911284551352 60
   \<and> nearest64 (5764607523034235 / 2 ^ 60 + 8646911284551352 / 2 ^ 60) 7205759403792794 59
   \<and> nearest64 0.0125 7205759403792794 59"
  by (simp add: nearest64_def)

section \<open>The claims\<close>

text \<open>
  C1. When the catalog resolves the key and the tokenizer adapter gives a count, the estimate has
  \<open>inputCost = inputTokens / 1_000_000 * inputPricePerMillion\<close>,
  \<open>outputCost = expectedOutputTokens / 1_000_000 * outputPricePerMillion\<close>,
  \<open>totalCost = inputCost + outputCost\<close> and
  \<open>costPerToken = totalCost / (inputTokens + expectedOutputTokens)\<close>, with \<open>inputTokens\<close> the
  adapter's count; when \<open>inputTokens + expectedOutputTokens\<close> is \<open>0\<close>, \<open>costPerToken\<close> is not a
  finite number. This holds for every number given as the expected output. With finite prices
  and an expected output \<open>k\<close> from \<open>0\<close> on, the four values are the ones of the formulas in
  ordinary arithmetic, but for \<open>costPerToken\<close> when there is no input token and \<open>k = 0\<close>:
  it is \<open>NaN\<close> then.
\<close>

theorem calculateCost_formulas:
  assumes "getModelPricing rp mdl = Some pr" and "countTokens efm rp text mdl = Inr tc"
  shows "\<exists>e. calculateCost efm rp text mdl n = Inr e
     \<and> inputTokens e = Fin (of_nat (tokens tc)) \<and> outputTokens e = n \<and> pricing e = pr
     \<and> inputCost e = jmul (jdiv (inputTokens e) million) (inputPricePerMillion pr)
     \<and> outputCost e = jmul (jdiv n million) (outputPricePerMillion pr)
     \<and> totalCost e = jadd (inputCost e) (outputCost e)
     \<and> costPerToken e = jdiv (totalCost e) (jadd (inputTokens e) n)
     \<and> (jadd (inputTokens e) n = Fin 0 \<longrightarrow> \<not> isFinite (costPerToken e))
     \<and> (\<forall>pin pout k.
           inputPricePerMillion pr = Fin pin \<and> outputPricePerMillion pr = Fin pout
           \<and> n = Fin k \<and> 0 \<le> k \<longrightarrow>
             inputCost e = Fin (of_nat (tokens tc) / 1000000 * pin)
           \<and> outputCost e = Fin (k / 1000000 * pout)
           \<and> totalCost e = Fin (of_nat (tokens tc) / 1000000 * pin + k / 1000000 * pout)
           \<and> costPerToken e =
               (if tokens tc = 0 \<and> k = 0 then NaN
                else Fin ((of_nat (tokens tc) / 1000000 * pin + k / 1000000 * pout)
                           / (of_nat (tokens tc) + k))))"
proof -
  obtain e where e: "calculateCost efm rp text mdl n = Inr e"
    using calculateCost_Inr[OF assms, of n] by simp
  have general:
    "inputTokens e = Fin (of_nat (tokens tc))" "outputTokens e = n" "pricing e = pr"
    "inputCost e = jmul (jdiv (inputTokens e) million) (inputPricePerMillion pr)"
    "outputCost e = jmul (jdiv n million) (outputPricePerMillion pr)"
    "totalCost e = jadd (inputCost e) (outputCost e)"
    "costPerToken e = jdiv (totalCost e) (jadd (inputTokens e) n)"
    using calculateCost_Inr[OF assms, of n] e by simp_all
  have nonfinite: "jadd (inputTokens e) n = Fin 0 \<longrightarrow> \<not> isFinite (costPerToken e)"
    using general(7) jdiv_zero_not_finite by simp
  have finite: "\<forall>pin pout k.
           inputPricePerMillion pr = Fin pin \<and> outputPricePerMillion pr = Fin pout
           \<and> n = Fin k \<and> 0 \<le> k \<longrightarrow>
             inputCost e = Fin (of_nat (tokens tc) / 1000000 * pin)
           \<and> outputCost e = Fin (k / 1000000 * pout)
           \<and> totalCost e = Fin (of_nat (tokens tc) / 1000000 * pin + k / 1000000 * pout)
           \<and> costPerToken e =
               (if tokens tc = 0 \<and> k = 0 then NaN
                else Fin ((of_nat (tokens tc) / 1000000 * pin + k / 1000000 * pout)
                           / (of_nat (tokens tc) + k)))"
  proof (intro allI impI)
    fix pin pout k
    assume a: "inputPricePerMillion pr = Fin pin \<and> outputPricePerMillion pr = Fin pout
           \<and> n = Fin k \<and> 0 \<le> k"
    then have "Inr e = Inr
        \<lparr>model = mdl, inputTokens = Fin (of_nat (tokens tc)), outputTokens = Fin k,
         inputCost = Fin (of_nat (tokens tc) / 1000000 * pin),
         outputCost = Fin (k / 1000000 * pout),
         totalCost = Fin (of_nat (tokens tc) / 1000000 * pin + k / 1000000 * pout),
         costPerToken =
           (if tokens tc = 0 \<and> k = 0 then NaN
            else Fin ((of_nat (tokens tc) / 1000000 * pin + k / 1000000 * pout)
                       / (of_nat (tokens tc) + k))),
         pricing = pr\<rparr>"
      using calculateCost_finite[OF assms, of pin pout k] e by simp
    then have "e =
        \<lparr>model = mdl, inputTokens = Fin (of_nat (tokens tc)), outputTokens = Fin k,
         inputCost = Fin (of_nat (tokens tc) / 1000000 * pin),
         outputCost = Fin (k / 1000000 * pout),
         totalCost = Fin (of_nat (tokens tc) / 1000000 * pin + k / 1000000 * pout),
         costPerToken =
           (if tokens tc = 0 \<and> k = 0 then NaN
            else Fin ((of_nat (tokens tc) / 1000000 * pin + k / 1000000 * pout)
                       / (of_nat (tokens tc) + k))),
         pricing = pr\<rparr>"
      by (simp only: sum.inject)
    then show "inputCost e = Fin (of_nat (tokens tc) / 1000000 * pin)
           \<and> outputCost e = Fin (k / 1000000 * pout)
           \<and> totalCost e = Fin (of_nat (tokens tc) / 1000000 * pin + k / 1000000 * pout)
           \<and> costPerToken e =
               (if tokens tc = 0 \<and> k = 0 then NaN
                else Fin ((of_nat (tokens tc) / 1000000 * pin + k / 1000000 * pout)
                           / (of_nat (tokens tc) + k)))"
      by simp
  qed
  from e general nonfinite finite show ?thesis
    by (intro exI[of _ e] conjI)
qed

theorem calculateCost_formulas_witness:
  "getModelPricing MODEL_PRICING ''Claude-Sonnet-4'' =
     Some (mk_pricing ''Claude Sonnet 4'' ''Anthropic'' 3 15 200000 None)
   \<and> countTokens Map.empty MODEL_PRICING ''abcdefghi'' ''Claude-Sonnet-4'' =
     Inr \<lparr>tokens = 3, characters = 9, count_model = ''Claude-Sonnet-4''\<rparr>
   \<and> inputPricePerMillion (mk_pricing ''Claude Sonnet 4'' ''Anthropic'' 3 15 200000 None) = Fin 3
   \<and> outputPricePerMillion (mk_pricing ''Claude Sonnet 4'' ''Anthropic'' 3 15 200000 None) = Fin 15
   \<and> (0 :: rat) \<le> 500
   \<and> (\<exists>e. calculateCost Map.empty MODEL_PRICING ''abcdefghi'' ''Claude-Sonnet-4'' (Fin 500) = Inr e
     \<and> inputTokens e = Fin 3 \<and> outputTokens e = Fin 500
     \<and> inputCost e = Fin 0.000009 \<and> outputCost e = Fin 0.0075
     \<and> totalCost e = Fin 0.007509 \<and> costPerToken e = Fin (7509 / 503000000))
   \<and> getModelPricing MODEL_PRICING ''gemini-2.0-flash'' =
     Some (mk_pricing ''Gemini 2.0 Flash'' ''Google'' 0 0 1000000 None)
   \<and> countTokens Map.empty MODEL_PRICING [] ''gemini-2.0-flash'' =
     Inr \<lparr>tokens = 0, characters = 0, count_model = ''gemini-2.0-flash''\<rparr>
   \<and> jadd (Fin 0) (Fin 0) = Fin 0
   \<and> (\<exists>e. calculateCost Map.empty MODEL_PRICING [] ''gemini-2.0-flash'' (Fin 0) = Inr e
     \<and> costPerToken e = NaN \<and> \<not> isFinite (costPerToken e))"
proof -
  let ?pr = "mk_pricing ''Claude Sonnet 4'' ''Anthropic'' 3 15 200000 None"
  let ?tc = "\<lparr>tokens = 3, characters = 9, count_model = ''Claude-Sonnet-4''\<rparr>"
  have h1: "getModelPricing MODEL_PRICING ''Claude-Sonnet-4'' = Some ?pr"
    by (simp add: catalog_eval)
  have h2: "countTokens Map.empty MODEL_PRICING ''abcdefghi'' ''Claude-Sonnet-4'' = Inr ?tc"
    by (simp add: count_eval string_eval)
  have p: "inputPricePerMillion ?pr = Fin 3" "outputPricePerMillion ?pr = Fin 15" "(0 :: rat) \<le> 500"
    by (simp_all add: mk_pricing_def)
  from calculateCost_formulas[OF h1 h2, of "Fin 500"]
  obtain e where e: "calculateCost Map.empty MODEL_PRICING ''abcdefghi'' ''Claude-Sonnet-4'' (Fin 500) = Inr e"
    "inputTokens e = Fin (of_nat (tokens ?tc))" "outputTokens e = Fin 500"
    and fin: "\<forall>pin pout k.
           inputPricePerMillion ?pr = Fin pin \<and> outputPricePerMillion ?pr = Fin pout
           \<and> Fin 500 = Fin k \<and> 0 \<le> k \<longrightarrow>
             inputCost e = Fin (of_nat (tokens ?tc) / 1000000 * pin)
           \<and> outputCost e = Fin (k / 1000000 * pout)
           \<and> totalCost e = Fin (of_nat (tokens ?tc) / 1000000 * pin + k / 1000000 * pout)
           \<and> costPerToken e =
               (if tokens ?tc = 0 \<and> k = 0 then NaN
                else Fin ((of_nat (tokens ?tc) / 1000000 * pin + k / 1000000 * pout)
                           / (of_nat (tokens ?tc) + k)))"
    by (elim exE conjE) (rule that, assumption+)
  from fin[rule_format, of 3 15 500] p
  have v: "inputCost e = Fin 0.000009" "outputCost e = Fin 0.0075"
    "totalCost e = Fin 0.007509" "costPerToken e = Fin (7509 / 503000000)"
    by simp_all
  have a: "\<exists>e. calculateCost Map.empty MODEL_PRICING ''abcdefghi'' ''Claude-Sonnet-4'' (Fin 500) = Inr e
     \<and> inputTokens e = Fin 3 \<and> outputTokens e = Fin 500
     \<and> inputCost e = Fin 0.000009 \<and> outputCost e = Fin 0.0075
     \<and> totalCost e = Fin 0.007509 \<and> costPerToken e = Fin (7509 / 503000000)"
    using e v by (intro exI[of _ e] conjI) simp_all
  let ?pr0 = "mk_pricing ''Gemini 2.0 Flash'' ''Google'' 0 0 1000000 None"
  let ?tc0 = "\<lparr>tokens = 0, characters = 0, count_model = ''gemini-2.0-flash''\<rparr>"
  have z1: "getModelPricing MODEL_PRICING ''gemini-2.0-flash'' = Some ?pr0"
    by (simp add: catalog_eval)
  have z2: "countTokens Map.empty MODEL_PRICING [] ''gemini-2.0-flash'' = Inr ?tc0"
    by (simp add: count_eval string_eval)
  have z3: "jadd (Fin 0) (Fin 0) = Fin 0"
    by simp
  from calculateCost_formulas[OF z1 z2, of "Fin 0"]
  obtain e0 where e0: "calculateCost Map.empty MODEL_PRICING [] ''gemini-2.0-flash'' (Fin 0) = Inr e0"
    "inputTokens e0 = Fin (of_nat (tokens ?tc0))"
    and nf: "jadd (inputTokens e0) (Fin 0) = Fin 0 \<longrightarrow> \<not> isFinite (costPerToken e0)"
    and fin0: "\<forall>pin pout k.
           inputPricePerMillion ?pr0 = Fin pin \<and> outputPricePerMillion ?pr0 = Fin pout
           \<and> Fin 0 = Fin k \<and> 0 \<le> k \<longrightarrow>
             inputCost e0 = Fin (of_nat (tokens ?tc0) / 1000000 * pin)
           \<and> outputCost e0 = Fin (k / 1000000 * pout)
           \<and> totalCost e0 = Fin (of_nat (tokens ?tc0) / 1000000 * pin + k / 1000000 * pout)
           \<and> costPerToken e0 =
               (if tokens ?tc0 = 0 \<and> k = 0 then NaN
                else Fin ((of_nat (tokens ?tc0) / 1000000 * pin + k / 1000000 * pout)
                           / (of_nat (tokens ?tc0) + k)))"
    by (elim exE conjE) (rule that, assumption+)
  have "\<not> isFinite (costPerToken e0)"
    using nf e0(2) by simp
  moreover have "costPerToken e0 = NaN"
    using fin0[rule_format, of 0 0 0] by (simp add: mk_pricing_def)
  ultimately have b: "\<exists>e. calculateCost Map.empty MODEL_PRICING [] ''gemini-2.0-flash'' (Fin 0) = Inr e
     \<and> costPerToken e = NaN \<and> \<not> isFinite (costPerToken e)"
    using e0(1) by (intro exI[of _ e0] conjI)
  from h1 h2 p a z1 z2 z3 b show ?thesis
    by (intro conjI)
qed






text \<open>
  C4. On the lower-case key, in this order: a key with \<open>gpt\<close> is counted by
  \<open>countOpenAITokens\<close>, with an encoder of the tokenizer library; a key without \<open>gpt\<close> and
  with \<open>claude\<close> or \<open>gemini\<close> gets the length of the text divided by 4 and rounded up; any
  other key is counted with an encoder of the tokenizer library again, by \<open>countLlamaTokens\<close>
  (the encoder named \<open>cl100k_base\<close>) when it has \<open>llama\<close> and by \<open>countOpenAITokens\<close>
  otherwise.
\<close>

theorem countTokens_dispatch:
  "(includes_str (toLowerCase mdl) ''gpt'' \<longrightarrow>
      countTokens efm rp text mdl = countOpenAITokens efm rp text mdl
      \<and> (\<exists>nm. countTokens efm rp text mdl = libraryCount efm nm text mdl))
   \<and> (\<not> includes_str (toLowerCase mdl) ''gpt''
       \<and> (includes_str (toLowerCase mdl) ''claude'' \<or> includes_str (toLowerCase mdl) ''gemini'') \<longrightarrow>
      countTokens efm rp text mdl =
        Inr \<lparr>tokens = nat \<lceil>(of_nat (length text) :: rat) / 4\<rceil>, characters = length text,
             count_model = mdl\<rparr>)
   \<and> (\<not> includes_str (toLowerCase mdl) ''gpt'' \<and> \<not> includes_str (toLowerCase mdl) ''claude''
       \<and> \<not> includes_str (toLowerCase mdl) ''gemini'' \<longrightarrow>
      countTokens efm rp text mdl =
        (if includes_str (toLowerCase mdl) ''llama'' then countLlamaTokens efm text mdl
         else countOpenAITokens efm rp text mdl)
      \<and> (\<exists>nm. countTokens efm rp text mdl = libraryCount efm nm text mdl))"
proof (intro conjI impI)
  assume "includes_str (toLowerCase mdl) ''gpt''"
  then show a: "countTokens efm rp text mdl = countOpenAITokens efm rp text mdl"
    by (simp add: countTokens_def)
  show "\<exists>nm. countTokens efm rp text mdl = libraryCount efm nm text mdl"
    using a countOpenAITokens_library[of efm rp "text" mdl] by simp
next
  assume "\<not> includes_str (toLowerCase mdl) ''gpt''
       \<and> (includes_str (toLowerCase mdl) ''claude'' \<or> includes_str (toLowerCase mdl) ''gemini'')"
  then show "countTokens efm rp text mdl =
        Inr \<lparr>tokens = nat \<lceil>(of_nat (length text) :: rat) / 4\<rceil>, characters = length text,
             count_model = mdl\<rparr>"
    using countTokens_heuristic[of mdl efm rp "text"] by (simp add: ceil_div4_def)
next
  assume h: "\<not> includes_str (toLowerCase mdl) ''gpt'' \<and> \<not> includes_str (toLowerCase mdl) ''claude''
       \<and> \<not> includes_str (toLowerCase mdl) ''gemini''"
  then show b: "countTokens efm rp text mdl =
        (if includes_str (toLowerCase mdl) ''llama'' then countLlamaTokens efm text mdl
         else countOpenAITokens efm rp text mdl)"
    by (simp add: countTokens_def)
  show "\<exists>nm. countTokens efm rp text mdl = libraryCount efm nm text mdl"
    using b countOpenAITokens_library[of efm rp "text" mdl] countLlamaTokens_library[of efm "text" mdl]
    by (cases "includes_str (toLowerCase mdl) ''llama''") auto
qed

theorem countTokens_dispatch_witness:
  "includes_str (toLowerCase ''GPT-4o'') ''gpt''
   \<and> countTokens (\<lambda>n. if n = ''GPT-4o'' then Some length else None) MODEL_PRICING ''hello'' ''GPT-4o''
      = Inr \<lparr>tokens = 5, characters = 5, count_model = ''GPT-4o''\<rparr>
   \<and> \<not> includes_str (toLowerCase ''my-Claude'') ''gpt''
   \<and> includes_str (toLowerCase ''my-Claude'') ''claude''
   \<and> countTokens (\<lambda>n. Some length) MODEL_PRICING ''hello'' ''my-Claude''
      = Inr \<lparr>tokens = 2, characters = 5, count_model = ''my-Claude''\<rparr>
   \<and> \<not> includes_str (toLowerCase ''mistral-7b'') ''gpt''
   \<and> \<not> includes_str (toLowerCase ''mistral-7b'') ''claude''
   \<and> \<not> includes_str (toLowerCase ''mistral-7b'') ''gemini''
   \<and> countTokens (\<lambda>n. if n = ''cl100k_base'' then Some length else None) MODEL_PRICING ''hello'' ''mistral-7b''
      = Inr \<lparr>tokens = 5, characters = 5, count_model = ''mistral-7b''\<rparr>"
proof -
  let ?f = "\<lambda>n. if n = ''GPT-4o'' then Some (length :: string \<Rightarrow> nat) else None"
  let ?g = "\<lambda>n. if n = ''cl100k_base'' then Some (length :: string \<Rightarrow> nat) else None"
  have a: "includes_str (toLowerCase ''GPT-4o'') ''gpt''"
    by (simp add: string_eval)
  have b: "\<not> includes_str (toLowerCase ''my-Claude'') ''gpt''"
    "includes_str (toLowerCase ''my-Claude'') ''claude''"
    by (simp_all add: string_eval)
  have c: "\<not> includes_str (toLowerCase ''mistral-7b'') ''gpt''"
    "\<not> includes_str (toLowerCase ''mistral-7b'') ''claude''"
    "\<not> includes_str (toLowerCase ''mistral-7b'') ''gemini''"
    "\<not> includes_str (toLowerCase ''mistral-7b'') ''llama''"
    by (simp_all add: string_eval)
  have "countTokens ?f MODEL_PRICING ''hello'' ''GPT-4o''
      = countOpenAITokens ?f MODEL_PRICING ''hello'' ''GPT-4o''"
    using countTokens_dispatch[of "''GPT-4o''" ?f MODEL_PRICING "''hello''"] a by blast
  then have a': "countTokens ?f MODEL_PRICING ''hello'' ''GPT-4o''
      = Inr \<lparr>tokens = 5, characters = 5, count_model = ''GPT-4o''\<rparr>"
    by (simp add: countOpenAITokens_def encoded_def)
  have "countTokens (\<lambda>n. Some length) MODEL_PRICING ''hello'' ''my-Claude''
      = Inr \<lparr>tokens = nat \<lceil>(of_nat (length ''hello'') :: rat) / 4\<rceil>, characters = length ''hello'',
             count_model = ''my-Claude''\<rparr>"
    using countTokens_dispatch[of "''my-Claude''" "\<lambda>n. Some length" MODEL_PRICING "''hello''"] b
    by blast
  moreover have "nat \<lceil>(of_nat (length ''hello'') :: rat) / 4\<rceil> = 2"
    using ceil_div4_eq[of "length ''hello''"] by (simp add: ceil_div4_def)
  ultimately have b': "countTokens (\<lambda>n. Some length) MODEL_PRICING ''hello'' ''my-Claude''
      = Inr \<lparr>tokens = 2, characters = 5, count_model = ''my-Claude''\<rparr>"
    by simp
  have "countTokens ?g MODEL_PRICING ''hello'' ''mistral-7b''
      = (if includes_str (toLowerCase ''mistral-7b'') ''llama''
         then countLlamaTokens ?g ''hello'' ''mistral-7b''
         else countOpenAITokens ?g MODEL_PRICING ''hello'' ''mistral-7b'')"
    using countTokens_dispatch[of "''mistral-7b''" ?g MODEL_PRICING "''hello''"] c by blast
  then have c': "countTokens ?g MODEL_PRICING ''hello'' ''mistral-7b''
      = Inr \<lparr>tokens = 5, characters = 5, count_model = ''mistral-7b''\<rparr>"
    using c(4) by (simp add: countOpenAITokens_def encoded_def catalog_eval)
  from a b c a' b' c' show ?thesis by simp
qed

text \<open>
  C5. For a key of a heuristic family (its lower-case form has \<open>claude\<close> or \<open>gemini\<close> and not
  \<open>gpt\<close>) that the catalog resolves, the estimator returns, its input token count is
  \<open>ceil(length(T) / 4)\<close>, it is at least \<open>0\<close>, and every run on the same text, key and
  catalog gives the same count, whatever the tokenizer library and the expected output are.
\<close>

theorem heuristic_family_input_tokens:
  assumes "\<not> includes_str (toLowerCase mdl) ''gpt''"
    and "includes_str (toLowerCase mdl) ''claude'' \<or> includes_str (toLowerCase mdl) ''gemini''"
    and "getModelPricing rp mdl = Some pr"
  shows "\<exists>e. calculateCost efm rp text mdl n = Inr e
     \<and> inputTokens e = Fin (of_int \<lceil>(of_nat (length text) :: rat) / 4\<rceil>)
     \<and> jle (Fin 0) (inputTokens e)
     \<and> (\<forall>efm' n' e'. calculateCost efm' rp text mdl n' = Inr e' \<longrightarrow> inputTokens e' = inputTokens e)"
proof -
  let ?tc = "\<lparr>tokens = ceil_div4 (length text), characters = length text, count_model = mdl\<rparr>"
  have ct: "countTokens f rp text mdl = Inr ?tc" for f
    using countTokens_heuristic[OF assms(1,2)] .
  have tok: "(of_nat (ceil_div4 (length text)) :: rat) = of_int \<lceil>(of_nat (length text) :: rat) / 4\<rceil>"
    using ceil_div4_ceiling[of "length text"] by (metis of_int_of_nat_eq)
  have each: "\<exists>e. calculateCost f rp text mdl m = Inr e
       \<and> inputTokens e = Fin (of_int \<lceil>(of_nat (length text) :: rat) / 4\<rceil>)" for f m
    using calculateCost_Inr[OF assms(3) ct, of f m] tok by simp
  obtain e where e: "calculateCost efm rp text mdl n = Inr e"
    "inputTokens e = Fin (of_int \<lceil>(of_nat (length text) :: rat) / 4\<rceil>)"
    using each by blast
  have "jle (Fin 0) (inputTokens e)"
    using e(2) by (simp add: jle_def)
  moreover have "\<forall>efm' n' e'. calculateCost efm' rp text mdl n' = Inr e' \<longrightarrow> inputTokens e' = inputTokens e"
    using each e(2) by (metis sum.inject(2))
  ultimately show ?thesis using e by blast
qed

theorem heuristic_family_input_tokens_witness:
  "\<not> includes_str (toLowerCase ''Gemini-Flash'') ''gpt''
   \<and> (includes_str (toLowerCase ''Gemini-Flash'') ''claude''
        \<or> includes_str (toLowerCase ''Gemini-Flash'') ''gemini'')
   \<and> getModelPricing MODEL_PRICING ''Gemini-Flash''
        = Some (mk_pricing ''Gemini 1.5 Flash'' ''Google'' (75 / 1000) (30 / 100) 1000000 None)
   \<and> (\<exists>e. calculateCost (\<lambda>n. None) MODEL_PRICING ''hello world'' ''Gemini-Flash'' (Fin 500) = Inr e
     \<and> inputTokens e = Fin 3)"
proof -
  have h1: "\<not> includes_str (toLowerCase ''Gemini-Flash'') ''gpt''"
    by (simp add: string_eval)
  have h2: "includes_str (toLowerCase ''Gemini-Flash'') ''claude''
        \<or> includes_str (toLowerCase ''Gemini-Flash'') ''gemini''"
    by (simp add: string_eval)
  have h3: "getModelPricing MODEL_PRICING ''Gemini-Flash''
        = Some (mk_pricing ''Gemini 1.5 Flash'' ''Google'' (75 / 1000) (30 / 100) 1000000 None)"
    by (simp add: catalog_eval)
  have "(of_int \<lceil>(of_nat (length ''hello world'') :: rat) / 4\<rceil> :: rat) = 3"
    using ceil_div4_ceiling[of "length ''hello world''"] by (simp add: ceil_div4_eq)
  with heuristic_family_input_tokens[OF h1 h2 h3, of "\<lambda>n. None" "''hello world''" "Fin 500"] h1 h2 h3
  show ?thesis by auto
qed





text \<open>
  C8 (scenario A). A text of 4000 characters, a key of a heuristic family whose record has the
  input price 5.00 and the output price 15.00, and 500 expected output tokens: the estimate
  has 1000 input tokens, \<open>inputCost = 0.005\<close>, \<open>outputCost = 0.0075\<close> and
  \<open>totalCost = 0.0125\<close>.
\<close>

theorem scenario_A:
  assumes "\<not> includes_str (toLowerCase mdl) ''gpt''"
    and "includes_str (toLowerCase mdl) ''claude'' \<or> includes_str (toLowerCase mdl) ''gemini''"
    and "getModelPricing rp mdl = Some pr"
    and "inputPricePerMillion pr = Fin 5.00" and "outputPricePerMillion pr = Fin 15.00"
    and "length text = 4000"
  shows "\<exists>e. calculateCost efm rp text mdl (Fin 500) = Inr e
     \<and> inputTokens e = Fin 1000 \<and> outputTokens e = Fin 500
     \<and> inputCost e = Fin 0.005 \<and> outputCost e = Fin 0.0075 \<and> totalCost e = Fin 0.0125"
proof -
  have "countTokens efm rp text mdl =
      Inr \<lparr>tokens = 1000, characters = 4000, count_model = mdl\<rparr>"
    using countTokens_heuristic[OF assms(1,2), of efm rp "text"] assms(6)
    by (simp add: ceil_div4_eq)
  from calculateCost_Inr[OF assms(3) this, of "Fin 500"] assms(4,5)
  show ?thesis by simp
qed

theorem scenario_A_witness:
  "\<not> includes_str (toLowerCase ''claude-scenario-a'') ''gpt''
   \<and> (includes_str (toLowerCase ''claude-scenario-a'') ''claude''
       \<or> includes_str (toLowerCase ''claude-scenario-a'') ''gemini'')
   \<and> getModelPricing [''claude-scenario-a'' \<mapsto> mk_pricing ''Scenario A'' ''Anthropic'' 5 15 200000 None] ''claude-scenario-a''
        = Some (mk_pricing ''Scenario A'' ''Anthropic'' 5 15 200000 None)
   \<and> inputPricePerMillion (mk_pricing ''Scenario A'' ''Anthropic'' 5 15 200000 None) = Fin 5.00
   \<and> outputPricePerMillion (mk_pricing ''Scenario A'' ''Anthropic'' 5 15 200000 None) = Fin 15.00
   \<and> length (replicate 4000 CHR ''a'') = 4000
   \<and> (\<exists>e. calculateCost (\<lambda>n. None) [''claude-scenario-a'' \<mapsto> mk_pricing ''Scenario A'' ''Anthropic'' 5 15 200000 None] (replicate 4000 CHR ''a'') ''claude-scenario-a'' (Fin 500) = Inr e
     \<and> inputTokens e = Fin 1000 \<and> outputTokens e = Fin 500
     \<and> inputCost e = Fin 0.005 \<and> outputCost e = Fin 0.0075 \<and> totalCost e = Fin 0.0125)"
proof -
  let ?pr = "mk_pricing ''Scenario A'' ''Anthropic'' 5 15 200000 None"
  have h1: "\<not> includes_str (toLowerCase ''claude-scenario-a'') ''gpt''"
    by (simp add: string_eval)
  have h2: "includes_str (toLowerCase ''claude-scenario-a'') ''claude''
       \<or> includes_str (toLowerCase ''claude-scenario-a'') ''gemini''"
    by (simp add: string_eval)
  have h3: "getModelPricing [''claude-scenario-a'' \<mapsto> mk_pricing ''Scenario A'' ''Anthropic'' 5 15 200000 None] ''claude-scenario-a'' = Some ?pr"
    by (simp add: getModelPricing_def string_eval)
  have h4: "inputPricePerMillion ?pr = Fin 5.00" by (simp add: mk_pricing_def)
  have h5: "outputPricePerMillion ?pr = Fin 15.00" by (simp add: mk_pricing_def)
  have h6: "length (replicate 4000 CHR ''a'') = 4000" by simp
  from scenario_A[OF h1 h2 h3 h4 h5 h6, of "\<lambda>n. None"] h1 h2 h3 h4 h5 h6
  show ?thesis by blast
qed



text \<open>
  C10. Whichever branch counts, the \<open>TokenCount\<close> returned has \<open>characters\<close> equal to the
  length of the text and \<open>model\<close> equal to the key passed in. A count is returned when the
  tokenizer library has an encoder for the key and for \<open>cl100k_base\<close>, and always for a key
  of a heuristic family.
\<close>

theorem countTokens_characters_and_model:
  "(\<forall>tc. countTokens efm rp text mdl = Inr tc \<longrightarrow>
        characters tc = length text \<and> count_model tc = mdl)
   \<and> (efm mdl \<noteq> None \<and> efm ''cl100k_base'' \<noteq> None \<longrightarrow>
        (\<exists>tc. countTokens efm rp text mdl = Inr tc))
   \<and> (\<not> includes_str (toLowerCase mdl) ''gpt''
        \<and> (includes_str (toLowerCase mdl) ''claude'' \<or> includes_str (toLowerCase mdl) ''gemini'')
        \<longrightarrow> (\<exists>tc. countTokens efm rp text mdl = Inr tc))"
  using countTokens_fields[of efm rp "text" mdl] countTokens_returns[of efm mdl rp "text"]
    countTokens_heuristic[of mdl efm rp "text"]
  by blast

theorem countTokens_characters_and_model_witness:
  "countTokens (\<lambda>n. Some length) MODEL_PRICING ''hello world'' ''Gemini-1.5-pro''
     = Inr \<lparr>tokens = 3, characters = 11, count_model = ''Gemini-1.5-pro''\<rparr>
   \<and> (\<lambda>n. Some length) ''Gemini-1.5-pro'' \<noteq> (None :: (string \<Rightarrow> nat) option)
   \<and> (\<lambda>n. Some length) ''cl100k_base'' \<noteq> (None :: (string \<Rightarrow> nat) option)
   \<and> \<not> includes_str (toLowerCase ''Gemini-1.5-pro'') ''gpt''
   \<and> includes_str (toLowerCase ''Gemini-1.5-pro'') ''gemini''
   \<and> characters \<lparr>tokens = 3, characters = 11, count_model = ''Gemini-1.5-pro''\<rparr>
        = length ''hello world''
   \<and> count_model \<lparr>tokens = 3, characters = 11, count_model = ''Gemini-1.5-pro''\<rparr>
        = ''Gemini-1.5-pro''"
proof -
  have c: "countTokens (\<lambda>n. Some length) MODEL_PRICING ''hello world'' ''Gemini-1.5-pro''
     = Inr \<lparr>tokens = 3, characters = 11, count_model = ''Gemini-1.5-pro''\<rparr>"
    by (simp add: count_eval string_eval)
  have g: "\<not> includes_str (toLowerCase ''Gemini-1.5-pro'') ''gpt''"
    "includes_str (toLowerCase ''Gemini-1.5-pro'') ''gemini''"
    by (simp_all add: string_eval)
  have "characters \<lparr>tokens = 3, characters = 11, count_model = ''Gemini-1.5-pro''\<rparr>
          = length ''hello world''
      \<and> count_model \<lparr>tokens = 3, characters = 11, count_model = ''Gemini-1.5-pro''\<rparr>
          = ''Gemini-1.5-pro''"
    using countTokens_characters_and_model[of "\<lambda>n. Some length" MODEL_PRICING
        "''hello world''" "''Gemini-1.5-pro''"] c
    by blast
  with c g show ?thesis by simp
qed

end
